theory Spec2Isabelle
  imports Complex_Main "HOL-Library.Sublist" "HOL-Library.AList"
begin

section \<open>Data model of the router (moe\_router/main.py)\<close>

text \<open>
  Python values that \<open>json.loads\<close> can return and \<open>json.dumps\<close> is handed: \<open>None\<close>,
  booleans, integers, (finite) floats, strings, lists and string-keyed dictionaries as
  association lists in insertion order, and \<open>datetime\<close> objects, which the pydantic
  models of the router put into \<open>.dict()\<close> through their \<open>timestamp\<close> fields.
  A clock reading is a natural number of microseconds.
\<close>

datatype pyval =
    PNone
  | PBool bool
  | PInt int
  | PFloat real
  | PStr string
  | PList "pyval list"
  | PDict "(string \<times> pyval) list"
  | PDatetime nat

text \<open>
  The values of a JSON text: what the body of a request can hold. There is no
  \<open>datetime\<close> among them.
\<close>

datatype json =
    JNull
  | JBool bool
  | JInt int
  | JFloat real
  | JStr string
  | JList "json list"
  | JDict "(string \<times> json) list"

primrec of_json :: "json \<Rightarrow> pyval" where
  "of_json JNull = PNone"
| "of_json (JBool b) = PBool b"
| "of_json (JInt n) = PInt n"
| "of_json (JFloat x) = PFloat x"
| "of_json (JStr s) = PStr s"
| "of_json (JList xs) = PList (map of_json xs)"
| "of_json (JDict kvs) = PDict (map (map_prod id of_json) kvs)"

datatype RequestType = CREDIT | FRAUD | ESG | GENERAL

text \<open>
  \<open>class AgentRequest(BaseModel)\<close>, lines 83-88. The content is the text as bytes. A
  request is built from the JSON body of \<open>POST /route\<close> (line 371), so its metadata
  are JSON values (or the default \<open>{}\<close>).
\<close>

record AgentRequest =
  req_id :: string
  req_type :: RequestType
  content :: string
  metadata :: "(string \<times> json) list"
  req_timestamp :: nat

text \<open>\<open>class RoutingDecision(BaseModel)\<close>, lines 90-95.\<close>

record RoutingDecision =
  request_id :: string
  selected_agents :: "string list"
  reasoning :: string
  confidence :: real
  rd_timestamp :: nat

text \<open>An entry of \<open>AGENT_REGISTRY\<close>, lines 49-74 (endpoints at their defaults).\<close>

record agent =
  agent_id :: string
  agent_name :: string
  agent_type :: string
  capabilities :: "string list"
  endpoint :: string
  model :: string

definition AGENT_REGISTRY :: "(string \<times> agent) list" where
  "AGENT_REGISTRY =
    [(''credit-agent'',
       \<lparr>agent_id = ''credit-agent'', agent_name = ''Credit Evaluation Agent'',
        agent_type = ''credit'',
        capabilities = [''credit_scoring'', ''risk_assessment'', ''loan_eligibility''],
        endpoint = ''http://localhost:8081'', model = ''gemini-1.5-flash''\<rparr>),
     (''fraud-agent'',
       \<lparr>agent_id = ''fraud-agent'', agent_name = ''Fraud Detection Agent'',
        agent_type = ''fraud'',
        capabilities = [''transaction_analysis'', ''pattern_detection'', ''anomaly_detection''],
        endpoint = ''http://localhost:8082'', model = ''gemini-1.5-flash''\<rparr>),
     (''esg-agent'',
       \<lparr>agent_id = ''esg-agent'', agent_name = ''ESG Analysis Agent'',
        agent_type = ''esg'',
        capabilities = [''environmental_impact'', ''social_compliance'', ''governance_assessment''],
        endpoint = ''http://localhost:8083'', model = ''gemini-1.5-pro''\<rparr>)]"

section \<open>Strings\<close>

text \<open>
  \<open>str.lower()\<close> on the bytes of the text: the letters A to Z are the only characters
  whose lower case is an ASCII letter that occurs in a keyword of the router, every
  other byte is kept.
\<close>

definition lower_char :: "char \<Rightarrow> char" where
  "lower_char c =
     (case map_of (zip ''ABCDEFGHIJKLMNOPQRSTUVWXYZ'' ''abcdefghijklmnopqrstuvwxyz'') c of
        Some l \<Rightarrow> l
      | None \<Rightarrow> c)"

definition lower :: "string \<Rightarrow> string" where
  "lower s = map lower_char s"

text \<open>\<open>word in text\<close>: \<open>word\<close> occurs as a contiguous substring.\<close>

fun starts_with :: "string \<Rightarrow> string \<Rightarrow> bool" where
  "starts_with [] s = True"
| "starts_with (w # ws) [] = False"
| "starts_with (w # ws) (c # cs) = (w = c \<and> starts_with ws cs)"

fun str_in :: "string \<Rightarrow> string \<Rightarrow> bool" where
  "str_in w [] = (w = [])"
| "str_in w (c # cs) = (starts_with w (c # cs) \<or> str_in w cs)"

text \<open>\<open>sep.join(xs)\<close>.\<close>

fun join :: "string \<Rightarrow> string list \<Rightarrow> string" where
  "join sep [] = []"
| "join sep [x] = x"
| "join sep (x # y # ys) = x @ sep @ join sep (y # ys)"

section \<open>Rule-based strategy\<close>

text \<open>\<open>any(word in content_lower for word in words)\<close>, lines 210, 212, 214.\<close>

definition any_word_in :: "string list \<Rightarrow> string \<Rightarrow> bool" where
  "any_word_in words content_lower = list_ex (\<lambda>word. str_in word content_lower) words"

text \<open>The \<open>else\<close> branch of \<open>RulesRouterStrategy.route\<close>, lines 209-218.\<close>

definition content_analysis :: "string \<Rightarrow> string list" where
  "content_analysis c =
     (let content_lower = lower c;
          s0 = [];
          s1 = (if any_word_in [''credit'', ''loan'', ''score''] content_lower
                then s0 @ [''credit-agent''] else s0);
          s2 = (if any_word_in [''fraud'', ''suspicious'', ''anomaly''] content_lower
                then s1 @ [''fraud-agent''] else s1);
          s3 = (if any_word_in [''esg'', ''environmental'', ''sustainability''] content_lower
                then s2 @ [''esg-agent''] else s2)
      in if s3 = [] then [''credit-agent''] else s3)"

text \<open>
  \<open>RulesRouterStrategy.route\<close>, lines 193-227. \<open>now\<close> is the reading of
  \<open>datetime.now\<close> when the decision is built.
\<close>

definition RulesRouterStrategy_route :: "AgentRequest \<Rightarrow> nat \<Rightarrow> RoutingDecision" where
  "RulesRouterStrategy_route request now =
     (case req_type request of
        CREDIT \<Rightarrow>
          \<lparr>request_id = req_id request, selected_agents = [''credit-agent''],
           reasoning = ''Credit request routed to credit specialist'',
           confidence = 0.75, rd_timestamp = now\<rparr>
      | FRAUD \<Rightarrow>
          \<lparr>request_id = req_id request, selected_agents = [''fraud-agent''],
           reasoning = ''Fraud detection request routed to fraud specialist'',
           confidence = 0.75, rd_timestamp = now\<rparr>
      | ESG \<Rightarrow>
          \<lparr>request_id = req_id request, selected_agents = [''esg-agent''],
           reasoning = ''ESG request routed to ESG specialist'',
           confidence = 0.75, rd_timestamp = now\<rparr>
      | GENERAL \<Rightarrow>
          (let sel = content_analysis (content request) in
           \<lparr>request_id = req_id request, selected_agents = sel,
            reasoning = ''Content analysis routed to: '' @ join '', '' sel,
            confidence = 0.75, rd_timestamp = now\<rparr>))"

subsection \<open>The strategy in the words of the specification\<close>

text \<open>
  A keyword hits a text case-insensitively when some contiguous piece of the text is the
  keyword up to the case of its letters.
\<close>

definition spec_hit :: "string \<Rightarrow> string \<Rightarrow> bool" where
  "spec_hit keyword text = list_ex (\<lambda>piece. lower piece = keyword) (sublists text)"

text \<open>The keyword set of each specialist, by the specialist's type.\<close>

definition spec_keywords :: "string \<Rightarrow> string list" where
  "spec_keywords ty =
     (if ty = ''credit'' then [''credit'', ''loan'', ''score'']
      else if ty = ''fraud'' then [''fraud'', ''suspicious'', ''anomaly'']
      else if ty = ''esg'' then [''esg'', ''environmental'', ''sustainability'']
      else [])"

definition spec_type_name :: "RequestType \<Rightarrow> string" where
  "spec_type_name t =
     (case t of CREDIT \<Rightarrow> ''credit'' | FRAUD \<Rightarrow> ''fraud'' | ESG \<Rightarrow> ''esg''
      | GENERAL \<Rightarrow> ''general'')"

definition spec_default_agent :: string where
  "spec_default_agent = ''credit-agent''"

text \<open>
  Resolution order of the specification: a credit, fraud or esg request selects the
  agents registered for that category; a general request selects, in registry order,
  every specialist one of whose keywords hits the content, and the default agent when
  there is none.
\<close>

definition spec_rules_selection :: "AgentRequest \<Rightarrow> string list" where
  "spec_rules_selection request =
     (if req_type request \<noteq> GENERAL
      then map fst (filter (\<lambda>(k, a). agent_type a = spec_type_name (req_type request))
                      AGENT_REGISTRY)
      else (let hits = map fst (filter (\<lambda>(k, a). list_ex (\<lambda>w. spec_hit w (content request))
                                          (spec_keywords (agent_type a))) AGENT_REGISTRY)
            in if hits = [] then [spec_default_agent] else hits))"

section \<open>Model-based strategy\<close>

text \<open>
  What the try block of \<open>LLMRouterStrategy.route\<close> (lines 128-141) gets from its
  collaborators: the generative call raises (\<open>generate_content\<close>, or reading
  \<open>response.text\<close>), or it returns a text on which \<open>json.loads\<close> raises, or
  \<open>json.loads\<close> returns a value. The prompt of lines 123-126 is built before the
  try block and only feeds that call; of its steps only \<open>json.dumps(request.metadata)\<close>
  (line 165) could raise, and on the JSON values of a request it does not (see
  \<open>dumps_metadata\<close> below), so building the prompt always gets to the try block.
\<close>

datatype llm_reply = CallRaised string | NotJSON string | Parsed pyval

text \<open>
  The validation of the pydantic models is a library that is not part of the repository.
  Both major versions accept a value of the declared type; what they do with a scalar
  of another type (turn it into the declared type, or reject it) differs between them
  and is a parameter: \<open>lax_str\<close> for a \<open>str\<close> field, \<open>lax_float\<close> for a \<open>float\<close>
  field, \<open>None\<close> for a rejection. \<open>validation_text\<close> is the text of the error raised
  for a rejected value.
\<close>

record pydantic =
  lax_str :: "pyval \<Rightarrow> string option"
  lax_float :: "pyval \<Rightarrow> real option"
  validation_text :: "pyval \<Rightarrow> string"

fun validate_str :: "pydantic \<Rightarrow> pyval \<Rightarrow> string option" where
  "validate_str p (PStr s) = Some s"
| "validate_str p (PBool b) = lax_str p (PBool b)"
| "validate_str p (PInt n) = lax_str p (PInt n)"
| "validate_str p (PFloat x) = lax_str p (PFloat x)"
| "validate_str p v = None"

fun validate_str_list :: "pydantic \<Rightarrow> pyval \<Rightarrow> string list option" where
  "validate_str_list p (PList xs) = those (map (validate_str p) xs)"
| "validate_str_list p v = None"

text \<open>An integer within 53 bits is the same number as a float.\<close>

fun validate_float :: "pydantic \<Rightarrow> pyval \<Rightarrow> real option" where
  "validate_float p (PFloat x) = Some x"
| "validate_float p (PInt n) =
     (if \<bar>n\<bar> \<le> 2 ^ 53 then Some (real_of_int n) else lax_float p (PInt n))"
| "validate_float p (PBool b) = lax_float p (PBool b)"
| "validate_float p (PStr s) = lax_float p (PStr s)"
| "validate_float p v = None"

text \<open>\<open>d.get(key, default)\<close> on a dictionary.\<close>

definition dict_get :: "(string \<times> pyval) list \<Rightarrow> string \<Rightarrow> pyval \<Rightarrow> pyval" where
  "dict_get d key dflt = (case map_of d key of Some v \<Rightarrow> v | None \<Rightarrow> dflt)"

text \<open>
  \<open>LLMRouterStrategy.route\<close>, lines 121-153. Every exception raised inside the try
  block is caught by line 150 and answered by the rule-based strategy: the failure of the
  call, of \<open>json.loads\<close>, of \<open>.get\<close> on a value that is no dictionary, and of the
  validation of \<open>RoutingDecision\<close>.
\<close>

definition LLMRouterStrategy_route ::
  "pydantic \<Rightarrow> llm_reply \<Rightarrow> AgentRequest \<Rightarrow> nat \<Rightarrow> RoutingDecision" where
  "LLMRouterStrategy_route p reply request now =
     (case reply of
        CallRaised e \<Rightarrow> RulesRouterStrategy_route request now
      | NotJSON e \<Rightarrow> RulesRouterStrategy_route request now
      | Parsed decision_data \<Rightarrow>
          (case decision_data of
             PDict d \<Rightarrow>
               (case validate_str_list p (dict_get d ''selected_agents'' (PList [])) of
                  None \<Rightarrow> RulesRouterStrategy_route request now
                | Some sel \<Rightarrow>
                    (case validate_str p (dict_get d ''reasoning'' (PStr [])) of
                       None \<Rightarrow> RulesRouterStrategy_route request now
                     | Some why \<Rightarrow>
                         (case validate_float p (dict_get d ''confidence'' (PFloat 0.8)) of
                            None \<Rightarrow> RulesRouterStrategy_route request now
                          | Some conf \<Rightarrow>
                              \<lparr>request_id = req_id request, selected_agents = sel,
                               reasoning = why, confidence = conf, rd_timestamp = now\<rparr>)))
           | _ \<Rightarrow> RulesRouterStrategy_route request now))"

text \<open>\<open>RouterOrchestrator._get_strategy\<close>, lines 238-242, and the call of line 248.\<close>

datatype strategy_kind = LLM | RULES

definition get_strategy :: "string \<Rightarrow> strategy_kind" where
  "get_strategy strategy_name = (if strategy_name = ''llm'' then LLM else RULES)"

definition route ::
  "strategy_kind \<Rightarrow> pydantic \<Rightarrow> llm_reply \<Rightarrow> AgentRequest \<Rightarrow> nat \<Rightarrow> RoutingDecision" where
  "route k p reply request now =
     (case k of LLM \<Rightarrow> LLMRouterStrategy_route p reply request now
      | RULES \<Rightarrow> RulesRouterStrategy_route request now)"

section \<open>Serialisation\<close>

text \<open>
  \<open>json.dumps\<close> without a \<open>default\<close> hook raises \<open>TypeError\<close> on a
  \<open>datetime\<close>, wherever it sits in the value. The text it returns otherwise is
  determined by the value, which stands for it.
\<close>

datatype py_error = TypeError string | KeyError string | HTTPException nat string

fun json_serializable :: "pyval \<Rightarrow> bool" where
  "json_serializable (PList xs) = list_all json_serializable xs"
| "json_serializable (PDict kvs) = list_all (\<lambda>kv. json_serializable (snd kv)) kvs"
| "json_serializable (PDatetime t) = False"
| "json_serializable v = True"

definition json_dumps :: "pyval \<Rightarrow> py_error + pyval" where
  "json_dumps v =
     (if json_serializable v then Inr v
      else Inl (TypeError ''Object of type datetime is not JSON serializable''))"

text \<open>\<open>json.dumps(request.metadata)\<close>, line 165, in \<open>_create_routing_prompt\<close>.\<close>

definition dumps_metadata :: "AgentRequest \<Rightarrow> py_error + pyval" where
  "dumps_metadata request = json_dumps (PDict (map (map_prod id of_json) (metadata request)))"

text \<open>\<open>str(e)\<close> of an exception.\<close>

fun error_str :: "py_error \<Rightarrow> string" where
  "error_str (TypeError m) = m"
| "error_str (KeyError m) = m"
| "error_str (HTTPException c m) = m"

text \<open>The text of a clock reading (\<open>isoformat\<close>), here its decimal digits.\<close>

fun isoformat :: "nat \<Rightarrow> string" where
  "isoformat n =
     (if n < 10 then [''0123456789'' ! n]
      else isoformat (n div 10) @ [''0123456789'' ! (n mod 10)])"

text \<open>\<open>RoutingDecision.dict()\<close>: the fields as they are, the time stamp a \<open>datetime\<close>.\<close>

definition RoutingDecision_dict :: "RoutingDecision \<Rightarrow> pyval" where
  "RoutingDecision_dict d =
     PDict [(''request_id'', PStr (request_id d)),
            (''selected_agents'', PList (map PStr (selected_agents d))),
            (''reasoning'', PStr (reasoning d)),
            (''confidence'', PFloat (confidence d)),
            (''timestamp'', PDatetime (rd_timestamp d))]"

section \<open>Dispatch\<close>

text \<open>
  What lines 321-326 of \<open>_call_agent\<close> get from the HTTP client: the time-out of
  30 seconds (\<open>httpx.TimeoutException\<close>), any other exception with its text (raised
  while the request is built or sent, by \<open>raise_for_status\<close> on a status that is not
  2xx, or by \<open>response.json()\<close> on a body that is no JSON), or the value of the JSON
  body.
\<close>

datatype http_result = HTimeout | HError string | HJson pyval

fun py_type_name :: "pyval \<Rightarrow> string" where
  "py_type_name PNone = ''NoneType''"
| "py_type_name (PBool b) = ''bool''"
| "py_type_name (PInt n) = ''int''"
| "py_type_name (PFloat x) = ''float''"
| "py_type_name (PStr s) = ''str''"
| "py_type_name (PList xs) = ''list''"
| "py_type_name (PDict d) = ''dict''"
| "py_type_name (PDatetime t) = ''datetime.datetime''"

definition no_attribute_get :: "pyval \<Rightarrow> string" where
  "no_attribute_get v =
     [CHR 0x27] @ py_type_name v @ [CHR 0x27] @ '' object has no attribute ''
       @ [CHR 0x27] @ ''get'' @ [CHR 0x27]"

text \<open>
  \<open>RouterOrchestrator._call_agent\<close>, lines 316-330: \<open>Inl\<close> is the text of the
  exception it raises, \<open>Inr\<close> the value it returns.
\<close>

definition call_agent :: "AgentRequest \<Rightarrow> agent \<Rightarrow> http_result \<Rightarrow> string + pyval" where
  "call_agent request agent h =
     (case h of
        HTimeout \<Rightarrow> Inl (''Agent '' @ agent_id agent @ '' timed out'')
      | HError e \<Rightarrow> Inl (''Agent '' @ agent_id agent @ '' error: '' @ e)
      | HJson body \<Rightarrow>
          (case body of
             PDict d \<Rightarrow> Inr (dict_get d ''response'' (PStr []))
           | _ \<Rightarrow> Inl (''Agent '' @ agent_id agent @ '' error: '' @ no_attribute_get body)))"

text \<open>\<open>agent_id in AGENT_REGISTRY\<close>, line 288.\<close>

definition registered :: "string \<Rightarrow> bool" where
  "registered a = (case map_of AGENT_REGISTRY a of None \<Rightarrow> False | Some ag \<Rightarrow> True)"

text \<open>The list \<open>tasks\<close> of lines 287-291: one task for each selected id of the registry.\<close>

definition make_tasks :: "string list \<Rightarrow> (string \<times> agent) list" where
  "make_tasks agent_ids =
     concat (map (\<lambda>agent_id. case map_of AGENT_REGISTRY agent_id of
                                 None \<Rightarrow> []
                               | Some agent \<Rightarrow> [(agent_id, agent)]) agent_ids)"

text \<open>\<open>AgentResponse(...).dict()\<close>, lines 300-305; \<open>None\<close> when the validation raises.\<close>

definition AgentResponse_dict ::
  "pydantic \<Rightarrow> string \<Rightarrow> string \<Rightarrow> pyval \<Rightarrow> real \<Rightarrow> nat \<Rightarrow> pyval option" where
  "AgentResponse_dict p rid aid response ms now =
     (case validate_str p response of
        None \<Rightarrow> None
      | Some text \<Rightarrow>
          Some (PDict [(''request_id'', PStr rid), (''agent_id'', PStr aid),
                       (''response'', PStr text), (''metadata'', PDict []),
                       (''processing_time_ms'', PFloat ms),
                       (''timestamp'', PDatetime now)]))"

text \<open>The entry written by the handler of lines 307-312.\<close>

definition error_entry :: "string \<Rightarrow> string \<Rightarrow> pyval" where
  "error_entry e aid = PDict [(''error'', PStr e), (''agent_id'', PStr aid)]"

text \<open>
  The body of the loop of lines 294-312 for the task of index \<open>i\<close>, awaited from the
  clock reading \<open>start_time\<close>. The clock counts microseconds, as \<open>datetime\<close> does, and
  \<open>http i\<close> is what the HTTP exchange of that task gives, with the time it takes.
\<close>

definition await_task ::
  "pydantic \<Rightarrow> (nat \<Rightarrow> http_result \<times> nat) \<Rightarrow> AgentRequest \<Rightarrow> nat \<Rightarrow> string \<times> agent
     \<Rightarrow> nat \<Rightarrow> pyval \<times> nat" where
  "await_task p http request i task start_time =
     (let now = start_time + snd (http i);
          processing_time_ms = real (now - start_time) / 1000
      in (case call_agent request (snd task) (fst (http i)) of
            Inl e \<Rightarrow> (error_entry e (fst task), now)
          | Inr response \<Rightarrow>
              (case AgentResponse_dict p (req_id request) (fst task) response
                      processing_time_ms now of
                 Some entry \<Rightarrow> (entry, now)
               | None \<Rightarrow> (error_entry (validation_text p response) (fst task), now))))"

text \<open>
  The loop of lines 294-312. A task is a coroutine object that line 290 creates and
  nothing starts before line 297 awaits it, so the loop runs the calls one after the
  other, the next beginning when the one before has returned or raised.
\<close>

fun await_tasks ::
  "pydantic \<Rightarrow> (nat \<Rightarrow> http_result \<times> nat) \<Rightarrow> AgentRequest \<Rightarrow> nat \<Rightarrow> (string \<times> agent) list
     \<Rightarrow> (string \<times> pyval) list \<Rightarrow> nat \<Rightarrow> (string \<times> pyval) list \<times> nat" where
  "await_tasks p http request i [] responses clk = (responses, clk)"
| "await_tasks p http request i (task # tasks) responses clk =
     (case await_task p http request i task clk of
        (entry, now) \<Rightarrow>
          await_tasks p http request (i + 1) tasks
            (AList.update (fst task) entry responses) now)"

text \<open>
  \<open>RouterOrchestrator._send_to_agents\<close>, lines 281-314, from the clock reading
  \<open>clk\<close>: the mapping it returns and the clock reading when it returns.
\<close>

definition send_to_agents ::
  "pydantic \<Rightarrow> (nat \<Rightarrow> http_result \<times> nat) \<Rightarrow> AgentRequest \<Rightarrow> string list \<Rightarrow> nat
     \<Rightarrow> (string \<times> pyval) list \<times> nat" where
  "send_to_agents p http request agent_ids clk =
     await_tasks p http request 0 (make_tasks agent_ids) [] clk"

text \<open>An entry without its time stamp.\<close>

fun without_timestamp :: "pyval \<Rightarrow> pyval" where
  "without_timestamp (PDict d) = PDict (filter (\<lambda>kv. fst kv \<noteq> ''timestamp'') d)"
| "without_timestamp v = v"

section \<open>Orchestrator\<close>

text \<open>An entry of \<open>active_requests\<close>, lines 252-257.\<close>

record request_record =
  rec_request :: AgentRequest
  rec_routing :: RoutingDecision
  rec_responses :: "(string \<times> pyval) list"
  rec_status :: string

text \<open>
  The orchestrator (lines 233-236) with the clock and, as the effect of
  \<open>send_text\<close>, the messages delivered so far with the connection of each.
\<close>

record orchestrator =
  strategy :: strategy_kind
  active_requests :: "string \<rightharpoonup> request_record"
  websocket_connections :: "nat list"
  clock :: nat
  delivered :: "(nat \<times> pyval) list"

text \<open>
  The loop of lines 341-346. A \<open>for\<close> over a list reads the element at the next
  index as long as the index is below the current length; \<open>remove\<close> inside the loop
  shortens the list that is being read. \<open>dead c\<close> says that \<open>send_text\<close> raises on
  connection \<open>c\<close>.
\<close>

function send_loop ::
  "(nat \<Rightarrow> bool) \<Rightarrow> pyval \<Rightarrow> nat \<Rightarrow> nat list \<Rightarrow> (nat \<times> pyval) list
     \<Rightarrow> nat list \<times> (nat \<times> pyval) list" where
  "send_loop dead message i conns sent =
     (if i < length conns
      then (let connection = conns ! i in
            if dead connection
            then send_loop dead message (i + 1) (remove1 connection conns) sent
            else send_loop dead message (i + 1) conns (sent @ [(connection, message)]))
      else (conns, sent))"
  by pat_completeness auto
termination
  by (relation "measure (\<lambda>(dead, message, i, conns, sent). length conns - i)")
     (auto simp: length_remove1)

text \<open>\<open>RouterOrchestrator._broadcast_update\<close>, lines 332-346.\<close>

definition broadcast_update ::
  "(nat \<Rightarrow> bool) \<Rightarrow> string \<Rightarrow> pyval \<Rightarrow> orchestrator \<Rightarrow> py_error + orchestrator" where
  "broadcast_update dead event_type data s =
     (case json_dumps (PDict [(''type'', PStr event_type), (''data'', data),
                              (''timestamp'', PStr (isoformat (clock s)))]) of
        Inl e \<Rightarrow> Inl e
      | Inr message \<Rightarrow>
          (case send_loop dead message 0 (websocket_connections s) (delivered s) of
             (conns, sent) \<Rightarrow> Inr (s\<lparr>websocket_connections := conns, delivered := sent\<rparr>)))"

text \<open>
  What one request meets: the validation library, the reply of the generative model,
  the HTTP exchanges of the dispatch, and the connections on which \<open>send_text\<close>
  raises during the first and during the second broadcast.
\<close>

record env =
  pyd :: pydantic
  llm :: llm_reply
  http_env :: "nat \<Rightarrow> http_result \<times> nat"
  dead_first :: "nat \<Rightarrow> bool"
  dead_second :: "nat \<Rightarrow> bool"

text \<open>
  \<open>RouterOrchestrator.process_request\<close>, lines 244-279: the exception it raises or
  the value it returns, and the orchestrator afterwards.
\<close>

definition process_request ::
  "env \<Rightarrow> AgentRequest \<Rightarrow> orchestrator \<Rightarrow> (py_error + pyval) \<times> orchestrator" where
  "process_request e request s0 =
     (let routing_decision = route (strategy s0) (pyd e) (llm e) request (clock s0);
          s1 = s0\<lparr>active_requests := (active_requests s0)(req_id request \<mapsto>
                     \<lparr>rec_request = request, rec_routing = routing_decision,
                      rec_responses = [], rec_status = ''processing''\<rparr>)\<rparr>
      in case broadcast_update (dead_first e) ''routing_decision''
                (RoutingDecision_dict routing_decision) s1 of
           Inl err \<Rightarrow> (Inl err, s1)
         | Inr s2 \<Rightarrow>
             (case send_to_agents (pyd e) (http_env e) request
                     (selected_agents routing_decision) (clock s2) of
                (responses, now) \<Rightarrow>
                  (case active_requests s2 (req_id request) of
                     None \<Rightarrow> (Inl (KeyError (req_id request)), s2\<lparr>clock := now\<rparr>)
                   | Some r \<Rightarrow>
                       (let s3 = s2\<lparr>clock := now,
                                   active_requests := (active_requests s2)(req_id request \<mapsto>
                                     r\<lparr>rec_responses := responses,
                                       rec_status := ''completed''\<rparr>)\<rparr>
                        in case broadcast_update (dead_second e) ''request_completed''
                                  (PDict [(''request_id'', PStr (req_id request)),
                                          (''responses'', PDict responses)]) s3 of
                             Inl err \<Rightarrow> (Inl err, s3)
                           | Inr s4 \<Rightarrow>
                               (Inr (PDict [(''request_id'', PStr (req_id request)),
                                            (''routing'', RoutingDecision_dict routing_decision),
                                            (''responses'', PDict responses)]), s4)))))"

text \<open>The handler of \<open>POST /route\<close>, lines 370-378.\<close>

definition route_request ::
  "env \<Rightarrow> AgentRequest \<Rightarrow> orchestrator \<Rightarrow> (py_error + pyval) \<times> orchestrator" where
  "route_request e request s =
     (case process_request e request s of
        (Inl err, s') \<Rightarrow> (Inl (HTTPException 500 (error_str err)), s')
      | (Inr result, s') \<Rightarrow> (Inr result, s'))"

text \<open>The handler of \<open>GET /requests/{request_id}\<close>, lines 380-386.\<close>

definition get_request_status :: "orchestrator \<Rightarrow> string \<Rightarrow> py_error + request_record" where
  "get_request_status s rid =
     (case active_requests s rid of
        Some r \<Rightarrow> Inr r
      | None \<Rightarrow> Inl (HTTPException 404 ''Request not found''))"

section \<open>Inputs of the examples\<close>

text \<open>
  A validation that rejects every value of another type than the declared one, some
  requests, an orchestrator before its first request, and an environment in which every
  expert answers and no connection is dead.
\<close>

abbreviation strict_validation :: pydantic where
  "strict_validation \<equiv>
     \<lparr>lax_str = (\<lambda>v. None), lax_float = (\<lambda>v. None), validation_text = (\<lambda>v. [])\<rparr>"

abbreviation loan_fraud_request :: AgentRequest where
  "loan_fraud_request \<equiv>
     \<lparr>req_id = ''r1'', req_type = GENERAL, content = ''loan fraud'', metadata = [],
      req_timestamp = 0\<rparr>"

abbreviation hello_request :: AgentRequest where
  "hello_request \<equiv>
     \<lparr>req_id = ''r1'', req_type = GENERAL, content = ''Hello there'', metadata = [],
      req_timestamp = 0\<rparr>"

abbreviation fraud_request :: AgentRequest where
  "fraud_request \<equiv>
     \<lparr>req_id = ''r1'', req_type = FRAUD, content = ''check this transaction'',
      metadata = [], req_timestamp = 0\<rparr>"



abbreviation idle_orchestrator :: orchestrator where
  "idle_orchestrator \<equiv>
     \<lparr>strategy = RULES, active_requests = Map.empty, websocket_connections = [],
      clock = 0, delivered = []\<rparr>"


section \<open>Substrings and the keyword scan\<close>

lemma starts_with_prefix: "starts_with w s = prefix w s"
  by (induction w s rule: starts_with.induct) auto

lemma str_in_sublist: "str_in w s = sublist w s"
proof (induction s)
  case Nil
  show ?case by simp
next
  case (Cons c cs)
  show ?case by (simp add: Cons starts_with_prefix sublist_Cons_right)
qed

lemma sublist_map_iff:
  "sublist ys (map f xs) = (\<exists>zs. sublist zs xs \<and> map f zs = ys)"
proof
  assume "sublist ys (map f xs)"
  then obtain ps ss where "ps @ (ys @ ss) = map f xs" by (auto simp: sublist_def)
  then obtain p1 r1 where a: "xs = p1 @ r1" "ys @ ss = map f r1"
    unfolding append_eq_map_conv by blast
  from a(2) obtain z1 s1 where b: "r1 = z1 @ s1" "ys = map f z1"
    unfolding append_eq_map_conv by blast
  from a b have "sublist z1 xs" by (auto simp: sublist_def)
  with b show "\<exists>zs. sublist zs xs \<and> map f zs = ys" by blast
next
  assume "\<exists>zs. sublist zs xs \<and> map f zs = ys"
  then obtain zs ps ss where "xs = ps @ zs @ ss" "map f zs = ys" by (auto simp: sublist_def)
  then show "sublist ys (map f xs)" by (auto simp: sublist_def)
qed

lemma spec_hit_iff: "spec_hit w text = str_in w (lower text)"
  by (auto simp: spec_hit_def str_in_sublist lower_def sublist_map_iff list_ex_iff)

lemma any_spec_hit: "list_ex (\<lambda>w. spec_hit w text) ws = any_word_in ws (lower text)"
  by (simp add: any_word_in_def spec_hit_iff)

lemma spec_general:
  "req_type r = GENERAL \<Longrightarrow> spec_rules_selection r = content_analysis (content r)"
  by (simp add: spec_rules_selection_def content_analysis_def AGENT_REGISTRY_def any_spec_hit
      spec_keywords_def spec_default_agent_def Let_def)

lemma spec_typed:
  "req_type r \<noteq> GENERAL \<Longrightarrow>
   spec_rules_selection r = selected_agents (RulesRouterStrategy_route r now)"
  by (cases "req_type r")
     (simp_all add: spec_rules_selection_def AGENT_REGISTRY_def spec_type_name_def
        RulesRouterStrategy_route_def)

lemma rules_confidence: "confidence (RulesRouterStrategy_route r now) = 0.75"
  by (cases "req_type r") (simp_all add: RulesRouterStrategy_route_def Let_def)

lemma content_analysis_nonempty: "content_analysis c \<noteq> []"
  by (simp add: content_analysis_def Let_def)

lemma rules_nonempty: "selected_agents (RulesRouterStrategy_route r now) \<noteq> []"
  by (cases "req_type r")
     (simp_all add: RulesRouterStrategy_route_def Let_def content_analysis_nonempty)

section \<open>Routing\<close>

text \<open>
  Building the prompt (line 165) does not raise: the metadata of a request are JSON
  values, and \<open>json.dumps\<close> returns on them.
\<close>

lemma of_json_serializable: "json_serializable (of_json j)"
  by (induction j) (auto simp: list_all_iff)

lemma dumps_metadata_returns:
  "dumps_metadata request = Inr (PDict (map (map_prod id of_json) (metadata request)))"
  by (simp add: dumps_metadata_def json_dumps_def list_all_iff of_json_serializable)


text \<open>
  C1. The rule-based strategy selects what the resolution order of the specification
  selects: for a credit, fraud or esg request the one specialist registered for the
  category; for a general request every specialist with a keyword that hits the content
  case-insensitively, in registry order, and the default agent when none hits. The
  confidence is 0.75 in every case.
\<close>

theorem rules_route_refines_spec:
  "selected_agents (RulesRouterStrategy_route request now) = spec_rules_selection request
   \<and> confidence (RulesRouterStrategy_route request now) = 0.75"
proof (cases "req_type request = GENERAL")
  case True
  then show ?thesis
    by (simp add: spec_general rules_confidence)
       (simp add: RulesRouterStrategy_route_def Let_def)
next
  case False
  then show ?thesis by (simp add: spec_typed [symmetric] rules_confidence)
qed

text \<open>
  C2. When the generative call raises, or its text is no JSON, the model-based strategy
  returns the very decision of the rule-based strategy for the request: every field is
  the same, so nothing in it tells the caller of the fallback, and the reply of the
  model is used once.
\<close>

theorem llm_failure_falls_back_to_rules:
  "LLMRouterStrategy_route p (CallRaised e) request now = RulesRouterStrategy_route request now
   \<and> LLMRouterStrategy_route p (NotJSON e) request now = RulesRouterStrategy_route request now"
  by (simp add: LLMRouterStrategy_route_def)

text \<open>
  C8. The rule-based strategy never selects nothing; a general request whose content has
  none of the nine keywords gets the credit specialist alone; and the decision of a
  fallback is never empty either.
\<close>

theorem rules_selection_nonempty:
  "selected_agents (RulesRouterStrategy_route request now) \<noteq> []
   \<and> (req_type request = GENERAL \<and>
       \<not> any_word_in [''credit'', ''loan'', ''score'', ''fraud'', ''suspicious'', ''anomaly'',
                       ''esg'', ''environmental'', ''sustainability'']
            (lower (content request))
      \<longrightarrow> selected_agents (RulesRouterStrategy_route request now) = [''credit-agent''])
   \<and> selected_agents (LLMRouterStrategy_route p (CallRaised e) request now) \<noteq> []
   \<and> selected_agents (LLMRouterStrategy_route p (NotJSON e) request now) \<noteq> []"
  by (simp add: rules_nonempty LLMRouterStrategy_route_def)
     (simp add: RulesRouterStrategy_route_def content_analysis_def any_word_in_def Let_def)

theorem rules_selection_nonempty_witness:
  "req_type hello_request = GENERAL
   \<and> \<not> any_word_in [''credit'', ''loan'', ''score'', ''fraud'', ''suspicious'', ''anomaly'',
                      ''esg'', ''environmental'', ''sustainability'']
          (lower (content hello_request))
   \<and> selected_agents (RulesRouterStrategy_route hello_request 0) = [''credit-agent'']"
  using rules_selection_nonempty [of "hello_request" 0]
  by (simp add: any_word_in_def lower_def lower_char_def)

text \<open>
  C9, as stated, fails: a reply that is JSON but no object (here the empty array) makes
  \<open>.get\<close> raise, and the decision is the one of the fallback, with a selection and the
  confidence 0.75.
\<close>

theorem parsed_non_object_falls_back:
  "LLMRouterStrategy_route
     strict_validation
     (Parsed (PList []))
     fraud_request 0
   = \<lparr>request_id = ''r1'', selected_agents = [''fraud-agent''],
      reasoning = ''Fraud detection request routed to fraud specialist'',
      confidence = 0.75, rd_timestamp = 0\<rparr>"
  by (simp add: LLMRouterStrategy_route_def RulesRouterStrategy_route_def)

lemma those_validate_strs: "those (map (validate_str p \<circ> PStr) ss) = Some ss"
  by (induction ss) simp_all

lemma send_to_agents_none: "send_to_agents p http request [] clk = ([], clk)"
  by (simp add: send_to_agents_def make_tasks_def)

text \<open>
  C9, amended. When the call succeeds and its text parses as a JSON object in which
  \<open>selected_agents\<close> is absent or a list of strings, \<open>reasoning\<close> absent or a string and
  \<open>confidence\<close> absent or a float, there is no fallback: the decision has the fields of
  the object, an absent one replaced by the empty list, the empty string and 0.8. Without
  \<open>selected_agents\<close> the selection is empty and so is the mapping of the dispatch;
  without \<open>confidence\<close> the confidence is 0.8, which is not the 0.75 of the fallback.
\<close>

theorem parsed_object_defaults:
  assumes "map_of d ''selected_agents'' = map_option (\<lambda>ss. PList (map PStr ss)) sel"
      and "map_of d ''reasoning'' = map_option PStr why"
      and "map_of d ''confidence'' = map_option PFloat conf"
  shows "LLMRouterStrategy_route p (Parsed (PDict d)) request now =
           \<lparr>request_id = req_id request,
            selected_agents = (case sel of None \<Rightarrow> [] | Some ss \<Rightarrow> ss),
            reasoning = (case why of None \<Rightarrow> [] | Some r \<Rightarrow> r),
            confidence = (case conf of None \<Rightarrow> 0.8 | Some c \<Rightarrow> c),
            rd_timestamp = now\<rparr>
         \<and> (sel = None \<longrightarrow>
              selected_agents (LLMRouterStrategy_route p (Parsed (PDict d)) request now) = []
              \<and> fst (send_to_agents p http request
                        (selected_agents (LLMRouterStrategy_route p (Parsed (PDict d)) request now))
                        clk) = [])
         \<and> (conf = None \<longrightarrow>
              confidence (LLMRouterStrategy_route p (Parsed (PDict d)) request now) = 0.8
              \<and> confidence (LLMRouterStrategy_route p (Parsed (PDict d)) request now)
                  \<noteq> confidence (RulesRouterStrategy_route request now))"
proof -
  have r: "LLMRouterStrategy_route p (Parsed (PDict d)) request now =
           \<lparr>request_id = req_id request,
            selected_agents = (case sel of None \<Rightarrow> [] | Some ss \<Rightarrow> ss),
            reasoning = (case why of None \<Rightarrow> [] | Some r \<Rightarrow> r),
            confidence = (case conf of None \<Rightarrow> 0.8 | Some c \<Rightarrow> c),
            rd_timestamp = now\<rparr>"
    using assms
    by (cases sel; cases why; cases conf)
       (simp_all add: LLMRouterStrategy_route_def dict_get_def those_validate_strs)
  show ?thesis
    by (simp add: r send_to_agents_none rules_confidence)
qed

theorem parsed_object_defaults_witness:
  "map_of [(''reasoning'', PStr ''best fit'')] ''selected_agents''
     = map_option (\<lambda>ss. PList (map PStr ss)) None
   \<and> LLMRouterStrategy_route strict_validation
        (Parsed (PDict [(''reasoning'', PStr ''best fit'')])) loan_fraud_request 7
      = \<lparr>request_id = ''r1'', selected_agents = [], reasoning = ''best fit'',
         confidence = 0.8, rd_timestamp = 7\<rparr>
   \<and> fst (send_to_agents strict_validation (\<lambda>i. (HTimeout, 30000000)) loan_fraud_request
        (selected_agents (LLMRouterStrategy_route strict_validation
           (Parsed (PDict [(''reasoning'', PStr ''best fit'')])) loan_fraud_request 7)) 7) = []
   \<and> confidence (LLMRouterStrategy_route strict_validation
        (Parsed (PDict [(''reasoning'', PStr ''best fit'')])) loan_fraud_request 7)
      \<noteq> confidence (RulesRouterStrategy_route loan_fraud_request 7)"
  using parsed_object_defaults [of "[(''reasoning'', PStr ''best fit'')]" None "Some ''best fit''"
          None
          "strict_validation"
          "loan_fraud_request"
          7 "\<lambda>i. (HTimeout, 30000000)" 7]
  by (simp add: send_to_agents_none rules_confidence)

section \<open>Broadcast and the request as a whole\<close>

lemma dumps_decision:
  "json_dumps (PDict [(''type'', PStr t), (''data'', RoutingDecision_dict d),
                      (''timestamp'', PStr ts)])
     = Inl (TypeError ''Object of type datetime is not JSON serializable'')"
  by (simp add: json_dumps_def RoutingDecision_dict_def)

lemma process_request_raises:
  "process_request e request s =
     (Inl (TypeError ''Object of type datetime is not JSON serializable''),
      s\<lparr>active_requests := (active_requests s)(req_id request \<mapsto>
           \<lparr>rec_request = request,
            rec_routing = route (strategy s) (pyd e) (llm e) request (clock s),
            rec_responses = [], rec_status = ''processing''\<rparr>)\<rparr>)"
  by (simp add: process_request_def Let_def broadcast_update_def dumps_decision)

text \<open>
  C6 does not hold of the code. For every request, strategy and environment the first
  broadcast (line 260) hands \<open>json.dumps\<close> the \<open>.dict()\<close> of the routing decision, whose
  time stamp is a \<open>datetime\<close>; \<open>json.dumps\<close> raises before any connection is touched,
  \<open>process_request\<close> raises, the handler answers with status 500, and the record of the
  request stays in the ledger with the status \<open>processing\<close> and no responses.
\<close>

theorem request_never_completes:
  "fst (route_request e request s)
     = Inl (HTTPException 500 ''Object of type datetime is not JSON serializable'')
   \<and> get_request_status (snd (route_request e request s)) (req_id request)
     = Inr \<lparr>rec_request = request,
            rec_routing = route (strategy s) (pyd e) (llm e) request (clock s),
            rec_responses = [], rec_status = ''processing''\<rparr>"
  by (simp add: route_request_def process_request_raises get_request_status_def)

text \<open>
  C5 does not hold of the code. With the connections 0 and 1, of which 0 is dead, the
  loop removes 0 from the list it is reading, the list is then [1] and the next index 1
  is past its end: the loop ends and connection 1, which is alive, is sent nothing. And
  a broadcast of a routing decision raises before the loop, also when there is no
  connection at all, because \<open>json.dumps\<close> meets the \<open>datetime\<close> of the decision.
\<close>

theorem broadcast_loses_event:
  "broadcast_update (\<lambda>c. c = 0) ''request_completed''
     (PDict [(''request_id'', PStr ''r1''), (''responses'', PDict [])])
     \<lparr>strategy = RULES, active_requests = Map.empty, websocket_connections = [0, 1],
      clock = 0, delivered = []\<rparr>
   = Inr \<lparr>strategy = RULES, active_requests = Map.empty, websocket_connections = [1],
          clock = 0, delivered = []\<rparr>
   \<and> broadcast_update (\<lambda>c. False) ''routing_decision''
       (RoutingDecision_dict
          \<lparr>request_id = ''r1'', selected_agents = [''fraud-agent''],
           reasoning = ''Fraud detection request routed to fraud specialist'',
           confidence = 0.75, rd_timestamp = 0\<rparr>)
       idle_orchestrator
     = Inl (TypeError ''Object of type datetime is not JSON serializable'')"
  by (simp add: broadcast_update_def json_dumps_def RoutingDecision_dict_def)

section \<open>Dispatch: the mapping, the failures, the clock\<close>

lemma await_tasks_keys:
  "fst ` set (fst (await_tasks p http request i tasks responses clk))
     = fst ` set tasks \<union> fst ` set responses"
  by (induction tasks arbitrary: i responses clk) (auto simp: dom_update split: prod.splits)

lemma await_tasks_distinct:
  "distinct (map fst responses) \<Longrightarrow>
   distinct (map fst (fst (await_tasks p http request i tasks responses clk)))"
  by (induction tasks arbitrary: i responses clk) (auto simp: distinct_update split: prod.splits)

lemma make_tasks_keys: "map fst (make_tasks ids) = filter registered ids"
  by (induction ids) (auto simp: make_tasks_def registered_def split: option.splits)

lemma dispatch_key_set:
  "fst ` set (fst (send_to_agents p http request ids clk)) = set (filter registered ids)"
proof -
  have "fst ` set (make_tasks ids) = set (map fst (make_tasks ids))" by simp
  then show ?thesis
    by (simp add: send_to_agents_def await_tasks_keys make_tasks_keys del: set_map)
qed

lemma dispatch_distinct:
  "distinct (map fst (fst (send_to_agents p http request ids clk)))"
  by (simp add: send_to_agents_def await_tasks_distinct)

lemma dispatch_length:
  assumes "distinct ids"
  shows "length (fst (send_to_agents p http request ids clk)) = length (filter registered ids)"
proof -
  let ?r = "fst (send_to_agents p http request ids clk)"
  have "length ?r = length (map fst ?r)" by simp
  also have "\<dots> = card (set (map fst ?r))"
    using dispatch_distinct [of p http request ids clk] by (simp only: distinct_card)
  also have "set (map fst ?r) = set (filter registered ids)"
    using dispatch_key_set [of p http request ids clk] by simp
  also have "card (set (filter registered ids)) = length (filter registered ids)"
    using assms by (intro distinct_card distinct_filter)
  finally show ?thesis .
qed

text \<open>
  C3. The keys of the mapping that a dispatch returns are exactly the selected ids that
  are in the registry, each once; an id that is not in the registry has no entry. When
  the selected ids are distinct and one of them is not in the registry, the mapping has
  one entry less than there are selected ids.
\<close>

theorem dispatch_outcomes_are_registered_selection:
  "fst ` set (fst (send_to_agents p http request agent_ids clk))
     = set (filter registered agent_ids)
   \<and> distinct (map fst (fst (send_to_agents p http request agent_ids clk)))
   \<and> (distinct agent_ids \<and> length (filter (\<lambda>a. \<not> registered a) agent_ids) = 1
      \<longrightarrow> length (fst (send_to_agents p http request agent_ids clk)) = length agent_ids - 1)"
proof -
  have "length (filter registered agent_ids) + length (filter (\<lambda>a. \<not> registered a) agent_ids)
          = length agent_ids"
    by (rule sum_length_filter_compl)
  then show ?thesis
    by (auto simp: dispatch_key_set dispatch_distinct dispatch_length simp del: set_filter)
qed

theorem dispatch_outcomes_are_registered_selection_witness:
  "distinct [''credit-agent'', ''ghost-agent'', ''esg-agent'']
   \<and> length (filter (\<lambda>a. \<not> registered a) [''credit-agent'', ''ghost-agent'', ''esg-agent'']) = 1
   \<and> length (fst (send_to_agents strict_validation (\<lambda>i. (HTimeout, 30000000)) loan_fraud_request
                 [''credit-agent'', ''ghost-agent'', ''esg-agent''] 0)) = 2"
  using dispatch_outcomes_are_registered_selection
          [of "strict_validation"
              "\<lambda>i. (HTimeout, 30000000)"
              "loan_fraud_request"
              "[''credit-agent'', ''ghost-agent'', ''esg-agent'']" 0]
  by (simp add: registered_def AGENT_REGISTRY_def)

lemma await_tasks_other:
  "a \<notin> fst ` set tasks \<Longrightarrow>
   map_of (fst (await_tasks p http request i tasks responses clk)) a = map_of responses a"
  by (induction tasks arbitrary: i responses clk) (auto simp: update_conv' split: prod.splits)

lemma await_task_failure:
  "call_agent request (snd task) (fst (http i)) = Inl msg \<Longrightarrow>
   fst (await_task p http request i task clk) = error_entry msg (fst task)"
  by (simp add: await_task_def Let_def)

lemma await_tasks_failure:
  "k < length tasks \<Longrightarrow> fst (tasks ! k) = a \<Longrightarrow> a \<notin> fst ` set (drop (Suc k) tasks) \<Longrightarrow>
   call_agent request (snd (tasks ! k)) (fst (http (i + k))) = Inl msg \<Longrightarrow>
   map_of (fst (await_tasks p http request i tasks responses clk)) a = Some (error_entry msg a)"
proof (induction tasks arbitrary: i k responses clk)
  case Nil
  then show ?case by simp
next
  case (Cons task tasks)
  obtain entry now where t: "await_task p http request i task clk = (entry, now)"
    by (cases "await_task p http request i task clk")
  show ?case
  proof (cases k)
    case 0
    with Cons.prems have f: "fst task = a" "a \<notin> fst ` set tasks"
      "call_agent request (snd task) (fst (http i)) = Inl msg" by simp_all
    have "entry = error_entry msg a"
      using await_task_failure [of request task http i msg p clk] f(1) f(3) t by simp
    with f show ?thesis by (simp add: t await_tasks_other update_conv')
  next
    case (Suc k')
    with Cons.prems have "k' < length tasks" "fst (tasks ! k') = a"
      "a \<notin> fst ` set (drop (Suc k') tasks)"
      "call_agent request (snd (tasks ! k')) (fst (http (Suc i + k'))) = Inl msg" by simp_all
    from Cons.IH [OF this] show ?thesis by (simp add: t)
  qed
qed

lemma await_task_same:
  "http' i = http i \<Longrightarrow>
   without_timestamp (fst (await_task p http' request i task clk'))
     = without_timestamp (fst (await_task p http request i task clk))"
  by (simp add: await_task_def Let_def AgentResponse_dict_def error_entry_def
      split: sum.splits option.splits)

lemma await_tasks_independent:
  "(\<And>j. j < length tasks \<Longrightarrow> fst (tasks ! j) \<noteq> a \<Longrightarrow> http' (i + j) = http (i + j)) \<Longrightarrow>
   b \<noteq> a \<Longrightarrow>
   map_option without_timestamp (map_of responses' b)
     = map_option without_timestamp (map_of responses b) \<Longrightarrow>
   map_option without_timestamp
     (map_of (fst (await_tasks p http' request i tasks responses' clk')) b)
     = map_option without_timestamp
         (map_of (fst (await_tasks p http request i tasks responses clk)) b)"
proof (induction tasks arbitrary: i responses responses' clk clk')
  case Nil
  then show ?case by simp
next
  case (Cons task tasks)
  obtain e1 n1 where t1: "await_task p http' request i task clk' = (e1, n1)"
    by (cases "await_task p http' request i task clk'")
  obtain e2 n2 where t2: "await_task p http request i task clk = (e2, n2)"
    by (cases "await_task p http request i task clk")
  have later: "\<And>j. j < length tasks \<Longrightarrow> fst (tasks ! j) \<noteq> a \<Longrightarrow>
                 http' (Suc i + j) = http (Suc i + j)"
    using Cons.prems(1) [of "Suc j" for j] by simp
  have upd: "map_option without_timestamp (map_of (AList.update (fst task) e1 responses') b)
           = map_option without_timestamp (map_of (AList.update (fst task) e2 responses) b)"
  proof (cases "fst task = b")
    case True
    with Cons.prems(2) have "fst task \<noteq> a" by simp
    with Cons.prems(1) [of 0] have "http' i = http i" by simp
    then have "without_timestamp e1 = without_timestamp e2"
      using await_task_same [of http' i http p request task clk' clk] t1 t2 by simp
    with True show ?thesis by (simp add: update_conv')
  next
    case False
    with Cons.prems(3) show ?thesis by (simp add: update_conv')
  qed
  from Cons.IH [OF later Cons.prems(2) upd] show ?case by (simp add: t1 t2)
qed

lemma await_task_reads:
  "http' i = http i \<Longrightarrow>
   await_task p http' request i task clk = await_task p http request i task clk"
  by (simp add: await_task_def)

lemma await_tasks_reads:
  "(\<And>j. j < length tasks \<Longrightarrow> http' (i + j) = http (i + j)) \<Longrightarrow>
   await_tasks p http' request i tasks responses clk
     = await_tasks p http request i tasks responses clk"
proof (induction tasks arbitrary: i responses clk)
  case Nil
  show ?case by simp
next
  case (Cons task tasks)
  from Cons.prems [of 0] have h: "http' i = http i" by simp
  have later: "\<And>j. j < length tasks \<Longrightarrow> http' (Suc i + j) = http (Suc i + j)"
    using Cons.prems [of "Suc j" for j] by simp
  obtain entry now where t: "await_task p http request i task clk = (entry, now)"
    by (cases "await_task p http request i task clk")
  show ?case
    using Cons.IH [OF later, of "AList.update (fst task) entry responses" now]
    using await_task_reads [of http' i http p request task clk] h
    by (simp add: t)
qed

text \<open>
  C4, as stated, fails. A body that is a JSON object without \<open>response\<close> is malformed
  for the contract of the expert call, yet line 326 reads it with the default \<open>''\<close> and the
  dispatch records a success with the empty response. And when an id is selected twice,
  the failure of its first call is not recorded for the id: the entry of the second call
  overwrites it.
\<close>

theorem malformed_body_or_repeated_id_is_success:
  "send_to_agents strict_validation
     (\<lambda>i. (HJson (PDict [(''details'', PDict [])]), 1000))
     loan_fraud_request [''credit-agent''] 0
   = ([(''credit-agent'',
          PDict [(''request_id'', PStr ''r1''), (''agent_id'', PStr ''credit-agent''),
                 (''response'', PStr []), (''metadata'', PDict []),
                 (''processing_time_ms'', PFloat 1), (''timestamp'', PDatetime 1000)])],
      1000)
   \<and> send_to_agents strict_validation
       (\<lambda>i. if i = 0 then (HTimeout, 30000000)
             else (HJson (PDict [(''response'', PStr ''ok'')]), 1000))
       loan_fraud_request [''credit-agent'', ''credit-agent''] 0
     = ([(''credit-agent'',
          PDict [(''request_id'', PStr ''r1''), (''agent_id'', PStr ''credit-agent''),
                 (''response'', PStr ''ok''), (''metadata'', PDict []),
                 (''processing_time_ms'', PFloat 1), (''timestamp'', PDatetime 30001000)])],
        30001000)"
  by (simp add: send_to_agents_def make_tasks_def AGENT_REGISTRY_def await_task_def
      call_agent_def dict_get_def AgentResponse_dict_def Let_def)

text \<open>
  C4, amended. A time-out, any other exception of the HTTP exchange (transport error,
  status that is not 2xx, body that is no JSON) and a JSON body that is no object make
  \<open>_call_agent\<close> raise, while an object without \<open>response\<close> is a success with the empty
  response. A call that raises is written into the mapping as the entry
  \<open>{error, agent_id}\<close> of its own agent id, provided no later task of the dispatch has
  the same id. The entry of another agent id does not depend on what the calls for this
  id give: it is the same, up to its time stamp, in any two dispatches that differ only
  in the exchanges of this id. Nothing is retried: the dispatch reads one HTTP exchange
  for each task and no further one. And the dispatch is not failed by a failing call: it
  returns its mapping, with a key for every selected id of the registry.
\<close>

theorem expert_failure_is_local:
  "call_agent request ag HTimeout = Inl (''Agent '' @ agent_id ag @ '' timed out'')
   \<and> call_agent request ag (HError m) = Inl (''Agent '' @ agent_id ag @ '' error: '' @ m)
   \<and> ((\<forall>d. body \<noteq> PDict d)
       \<longrightarrow> call_agent request ag (HJson body)
            = Inl (''Agent '' @ agent_id ag @ '' error: '' @ no_attribute_get body))
   \<and> (map_of obj ''response'' = None
       \<longrightarrow> call_agent request ag (HJson (PDict obj)) = Inr (PStr []))
   \<and> (k < length (make_tasks agent_ids) \<and> fst (make_tasks agent_ids ! k) = a
       \<and> a \<notin> fst ` set (drop (Suc k) (make_tasks agent_ids))
       \<and> call_agent request (snd (make_tasks agent_ids ! k)) (fst (http k)) = Inl msg
      \<longrightarrow> map_of (fst (send_to_agents p http request agent_ids clk)) a
            = Some (PDict [(''error'', PStr msg), (''agent_id'', PStr a)]))
   \<and> ((\<forall>j < length (make_tasks agent_ids).
          fst (make_tasks agent_ids ! j) \<noteq> a \<longrightarrow> http' j = http j) \<and> b \<noteq> a
      \<longrightarrow> map_option without_timestamp
             (map_of (fst (send_to_agents p http' request agent_ids clk)) b)
          = map_option without_timestamp
             (map_of (fst (send_to_agents p http request agent_ids clk)) b))
   \<and> ((\<forall>j < length (make_tasks agent_ids). again j = http j)
      \<longrightarrow> send_to_agents p again request agent_ids clk
          = send_to_agents p http request agent_ids clk)
   \<and> fst ` set (fst (send_to_agents p http request agent_ids clk))
       = set (filter registered agent_ids)"
proof -
  have 1: "call_agent request ag HTimeout = Inl (''Agent '' @ agent_id ag @ '' timed out'')"
    by (simp add: call_agent_def)
  have 2: "call_agent request ag (HError m) = Inl (''Agent '' @ agent_id ag @ '' error: '' @ m)"
    by (simp add: call_agent_def)
  have 3: "call_agent request ag (HJson body)
            = Inl (''Agent '' @ agent_id ag @ '' error: '' @ no_attribute_get body)"
    if "\<forall>d. body \<noteq> PDict d"
    using that by (cases body) (simp_all add: call_agent_def)
  have 4: "call_agent request ag (HJson (PDict obj)) = Inr (PStr [])"
    if "map_of obj ''response'' = None"
    using that by (simp add: call_agent_def dict_get_def)
  have 5: "map_of (fst (send_to_agents p http request agent_ids clk)) a
            = Some (PDict [(''error'', PStr msg), (''agent_id'', PStr a)])"
    if "k < length (make_tasks agent_ids)" "fst (make_tasks agent_ids ! k) = a"
       "a \<notin> fst ` set (drop (Suc k) (make_tasks agent_ids))"
       "call_agent request (snd (make_tasks agent_ids ! k)) (fst (http k)) = Inl msg"
    using await_tasks_failure [of k "make_tasks agent_ids" a request http 0 msg p "[]" clk] that
    by (simp add: send_to_agents_def error_entry_def)
  have 6: "map_option without_timestamp
             (map_of (fst (send_to_agents p http' request agent_ids clk)) b)
          = map_option without_timestamp
             (map_of (fst (send_to_agents p http request agent_ids clk)) b)"
    if "\<forall>j < length (make_tasks agent_ids).
          fst (make_tasks agent_ids ! j) \<noteq> a \<longrightarrow> http' j = http j"
       "b \<noteq> a"
    using await_tasks_independent
            [of "make_tasks agent_ids" a http' 0 http b "[]" "[]" p request clk clk] that
    by (simp add: send_to_agents_def)
  have 7: "send_to_agents p again request agent_ids clk
          = send_to_agents p http request agent_ids clk"
    if "\<forall>j < length (make_tasks agent_ids). again j = http j"
    using await_tasks_reads [of "make_tasks agent_ids" again 0 http p request "[]" clk] that
    by (simp add: send_to_agents_def)
  from 1 2 3 4 5 6 7 dispatch_key_set [of p http request agent_ids clk]
  show ?thesis by blast
qed

theorem expert_failure_is_local_witness:
  "(\<forall>d. PList [] \<noteq> PDict d)
   \<and> call_agent loan_fraud_request (snd (make_tasks [''credit-agent'', ''fraud-agent''] ! 0))
        (HJson (PList []))
       = Inl (''Agent credit-agent error: '' @ no_attribute_get (PList []))
   \<and> call_agent loan_fraud_request (snd (make_tasks [''credit-agent'', ''fraud-agent''] ! 0))
        (HJson (PDict [(''details'', PDict [])]))
       = Inr (PStr [])
   \<and> call_agent loan_fraud_request (snd (make_tasks [''credit-agent'', ''fraud-agent''] ! 0))
        HTimeout
       = Inl ''Agent credit-agent timed out''
   \<and> map_of (fst (send_to_agents strict_validation
                (\<lambda>i. if i = 0 then (HTimeout, 30000000)
                      else (HJson (PDict [(''response'', PStr ''ok'')]), 1000))
                loan_fraud_request [''credit-agent'', ''fraud-agent''] 0)) ''credit-agent''
       = Some (PDict [(''error'', PStr ''Agent credit-agent timed out''),
                      (''agent_id'', PStr ''credit-agent'')])
   \<and> map_option without_timestamp
        (map_of (fst (send_to_agents strict_validation
                (\<lambda>i. (HJson (PDict [(''response'', PStr ''ok'')]), 1000))
                loan_fraud_request [''credit-agent'', ''fraud-agent''] 0)) ''fraud-agent'')
       = map_option without_timestamp
        (map_of (fst (send_to_agents strict_validation
                (\<lambda>i. if i = 0 then (HTimeout, 30000000)
                      else (HJson (PDict [(''response'', PStr ''ok'')]), 1000))
                loan_fraud_request [''credit-agent'', ''fraud-agent''] 0)) ''fraud-agent'')
   \<and> send_to_agents strict_validation
        (\<lambda>i. if i = 0 then (HTimeout, 30000000)
              else if i = 1 then (HJson (PDict [(''response'', PStr ''ok'')]), 1000)
              else (HError ''never asked'', 5))
        loan_fraud_request [''credit-agent'', ''fraud-agent''] 0
       = send_to_agents strict_validation
        (\<lambda>i. if i = 0 then (HTimeout, 30000000)
              else (HJson (PDict [(''response'', PStr ''ok'')]), 1000))
        loan_fraud_request [''credit-agent'', ''fraud-agent''] 0"
  using expert_failure_is_local
          [where request = loan_fraud_request
             and ag = "snd (make_tasks [''credit-agent'', ''fraud-agent''] ! 0)"
             and m = "[]" and body = "PList []" and obj = "[(''details'', PDict [])]"
             and k = 0 and agent_ids = "[''credit-agent'', ''fraud-agent'']"
             and a = "''credit-agent''"
             and http = "\<lambda>i. if i = 0 then (HTimeout, 30000000)
                            else (HJson (PDict [(''response'', PStr ''ok'')]), 1000)"
             and msg = "''Agent credit-agent timed out''" and p = strict_validation
             and clk = 0
             and http' = "\<lambda>i. (HJson (PDict [(''response'', PStr ''ok'')]), 1000)"
             and b = "''fraud-agent''"
             and again = "\<lambda>i. if i = 0 then (HTimeout, 30000000)
                            else if i = 1 then (HJson (PDict [(''response'', PStr ''ok'')]), 1000)
                            else (HError ''never asked'', 5)"]
  by (simp add: make_tasks_def AGENT_REGISTRY_def call_agent_def All_less_Suc numeral_2_eq_2)

lemma await_task_clock: "snd (await_task p http request i task clk) = clk + snd (http i)"
  by (simp add: await_task_def Let_def split: sum.splits option.splits)

lemma await_tasks_clock:
  "snd (await_tasks p http request i tasks responses clk)
     = clk + (\<Sum>j<length tasks. snd (http (i + j)))"
proof (induction tasks arbitrary: i responses clk)
  case Nil
  show ?case by simp
next
  case (Cons task tasks)
  obtain entry now where t: "await_task p http request i task clk = (entry, now)"
    by (cases "await_task p http request i task clk")
  with await_task_clock [of p http request i task clk] have n: "now = clk + snd (http i)" by simp
  show ?case
    by (simp add: t Cons.IH n sum.lessThan_Suc_shift del: sum.lessThan_Suc)
qed

text \<open>
  C7 does not hold of the code. Line 290 creates coroutine objects and the loop of lines
  294-297 awaits them one by one, so that a call begins when the call before it has
  ended, whatever the calls give. A dispatch therefore lasts as long as all its calls
  together: the clock reading when it returns is the reading when it began plus the sum
  of the times of the HTTP exchanges of its tasks, not the longest of them.
\<close>

theorem dispatch_time_is_sum_of_calls:
  "snd (send_to_agents p http request agent_ids clk)
     = clk + (\<Sum>j<length (filter registered agent_ids). snd (http j))"
  using await_tasks_clock [of p http request 0 "make_tasks agent_ids" "[]" clk]
        arg_cong [OF make_tasks_keys [of agent_ids], of length]
  by (simp add: send_to_agents_def)

text \<open>
  With two selected experts that each answer after one second, the entry of the first is
  stamped one second and the entry of the second two seconds after the start, and the
  dispatch returns after two seconds.
\<close>

lemma dispatch_of_two_calls:
  "send_to_agents strict_validation
     (\<lambda>i. (HJson (PDict [(''response'', PStr ''ok'')]), 1000000))
     loan_fraud_request
     [''credit-agent'', ''fraud-agent''] 0
   = ([(''credit-agent'',
          PDict [(''request_id'', PStr ''r1''), (''agent_id'', PStr ''credit-agent''),
                 (''response'', PStr ''ok''), (''metadata'', PDict []),
                 (''processing_time_ms'', PFloat 1000), (''timestamp'', PDatetime 1000000)]),
       (''fraud-agent'',
          PDict [(''request_id'', PStr ''r1''), (''agent_id'', PStr ''fraud-agent''),
                 (''response'', PStr ''ok''), (''metadata'', PDict []),
                 (''processing_time_ms'', PFloat 1000), (''timestamp'', PDatetime 2000000)])],
      2000000)"
  by (simp add: send_to_agents_def make_tasks_def AGENT_REGISTRY_def await_task_def
      call_agent_def dict_get_def AgentResponse_dict_def Let_def)

section \<open>Two requests with one id\<close>


end
